theory Spec2Isabelle
  imports Main "HOL-Library.Sublist"
begin

section \<open>Python strings\<close>

text \<open>
  A Python \<open>str\<close> is a sequence of Unicode code points, so it is modelled as a list of
  natural numbers (one per code point) rather than as a list of 8-bit characters: the
  line boundaries of \<open>str.splitlines\<close> and the whitespace of \<open>str.strip\<close> include code
  points above 255. String literals of the source are written \<open>lit ''...''\<close>.
\<close>

type_synonym codepoint = nat
type_synonym str = "codepoint list"

definition lit :: "string \<Rightarrow> str" where
  "lit s = map of_char s"

text \<open>
  The line boundaries recognised by \<open>str.splitlines()\<close>: LF, VT, FF, CR, FS, GS, RS,
  NEL, LINE SEPARATOR and PARAGRAPH SEPARATOR.
\<close>

definition is_linebreak :: "codepoint \<Rightarrow> bool" where
  "is_linebreak c \<longleftrightarrow>
     c = 0x0A \<or> c = 0x0B \<or> c = 0x0C \<or> c = 0x0D \<or> c = 0x1C \<or> c = 0x1D \<or> c = 0x1E
     \<or> c = 0x85 \<or> c = 0x2028 \<or> c = 0x2029"

text \<open>The code points for which \<open>str.isspace()\<close> holds; \<open>str.strip()\<close> removes these.\<close>

definition is_space :: "codepoint \<Rightarrow> bool" where
  "is_space c \<longleftrightarrow>
     (0x09 \<le> c \<and> c \<le> 0x0D) \<or> (0x1C \<le> c \<and> c \<le> 0x20) \<or> c = 0x85 \<or> c = 0xA0
     \<or> c = 0x1680 \<or> (0x2000 \<le> c \<and> c \<le> 0x200A) \<or> c = 0x2028 \<or> c = 0x2029
     \<or> c = 0x202F \<or> c = 0x205F \<or> c = 0x3000"

text \<open>\<open>sub in s\<close>: the substring test, scanning the start positions from left to right.\<close>

fun str_in :: "str \<Rightarrow> str \<Rightarrow> bool" where
  "str_in sub [] = (sub = [])"
| "str_in sub (c # cs) = (prefix sub (c # cs) \<or> str_in sub cs)"

text \<open>
  \<open>s.splitlines()\<close>: the lines of \<open>s\<close> without their terminators. CR LF counts as one
  terminator, and a terminator at the very end opens no further (empty) line.
\<close>

fun splitlines :: "str \<Rightarrow> str list" where
  "splitlines [] = []"
| "splitlines (c # cs) =
     (if is_linebreak c
      then [] # splitlines (if c = 0x0D \<and> take 1 cs = [0x0A] then drop 1 cs else cs)
      else (case splitlines cs of [] \<Rightarrow> [[c]] | l # ls \<Rightarrow> (c # l) # ls))"

text \<open>\<open>s.strip()\<close>: leading and trailing whitespace removed.\<close>

definition strip :: "str \<Rightarrow> str" where
  "strip s = rev (dropWhile is_space (rev (dropWhile is_space s)))"

text \<open>
  \<open>s.replace(old, new)\<close>: every non-overlapping occurrence of \<open>old\<close>, found from left to
  right, is replaced by \<open>new\<close>. For an empty \<open>old\<close> Python inserts \<open>new\<close> before every
  character and at the end.
\<close>

function replace :: "str \<Rightarrow> str \<Rightarrow> str \<Rightarrow> str" where
  "replace old new [] = (if old = [] then new else [])"
| "replace old new (c # cs) =
     (if old = [] then new @ c # replace old new cs
      else if prefix old (c # cs) then new @ replace old new (drop (length old) (c # cs))
      else c # replace old new cs)"
  by pat_completeness auto
termination
  by (relation "measure (\<lambda>(old, new, s). length s)") auto

section \<open>Score extractor\<close>

text \<open>
  \<^verbatim>\<open>
  def extract_pylint_score(lint_report):
      for line in lint_report.splitlines():
          if "Your code has been rated at" in line:
              return line.strip()
      return "Pylint score not found."
  \<close>
  The \<open>for\<close> loop is the recursion \<open>first_rated_line\<close> over the lines.
\<close>

fun first_rated_line :: "str list \<Rightarrow> str" where
  "first_rated_line [] = lit ''Pylint score not found.''"
| "first_rated_line (line # rest) =
     (if str_in (lit ''Your code has been rated at'') line then strip line
      else first_rated_line rest)"

definition extract_pylint_score :: "str \<Rightarrow> str" where
  "extract_pylint_score lint_report = first_rated_line (splitlines lint_report)"

section \<open>The machine around the program\<close>

text \<open>
  Everything the program does beyond string handling goes through four boundaries:
  child processes (\<open>subprocess.run\<close>), the working directory (\<open>open\<close>), the hosted model
  endpoint and the Streamlit page. What lies behind the first and the third is not part
  of the repository, so it is a parameter of the model: a \<open>platform\<close> says what a
  command line does to the host and to the files, and what the endpoint does with a
  prompt. The type \<open>'h\<close> is whatever host state the platform needs (installed
  executables, the R library, the network).
\<close>

datatype error =
    FileNotFoundError str
  | CalledProcessError "str list" int
  | KeyboardInterrupt

text \<open>
  The outcome of spawning a command line: the executable is not on the path
  (\<open>subprocess.run\<close> raises \<open>FileNotFoundError\<close>), or the child ran and exited with a
  return code, its standard output and its standard error.
\<close>

datatype proc_result = NotFound | Exited int str str

text \<open>
  The outcome of lines 80 to 83 of the source (\<open>GenerativeModel\<close>, \<open>generate_content\<close>,
  \<open>resolve\<close>, \<open>.text\<close>): the generated text; or an instance of \<open>Exception\<close> was raised
  and \<open>str(e)\<close> is the given message; or something that is not an \<open>Exception\<close>
  (\<open>KeyboardInterrupt\<close>, \<open>SystemExit\<close>) was raised, which \<open>except Exception\<close> lets through.
\<close>

datatype llm_outcome = Generated str | Failed str | Interrupted

record 'h platform =
  run_process :: "str list \<Rightarrow> 'h \<Rightarrow> (str \<rightharpoonup> str) \<Rightarrow> proc_result \<times> 'h \<times> (str \<rightharpoonup> str)"
  generate_content :: "str \<Rightarrow> 'h \<Rightarrow> llm_outcome \<times> 'h"
  sys_executable :: str

text \<open>What the page shows, in the order of the \<open>st.*\<close> calls.\<close>

datatype widget =
    Title str
  | Write str
  | Subheader str
  | Text str
  | ErrorBox str
  | Radio str "str list"
  | TextArea str str
  | Button str
  | FileUploader str "str list"
  | DownloadButton str str str str

text \<open>
  The state threaded through the program. \<open>files\<close> is the working directory, a flat
  map from file name to text content (encodings and permissions are not modelled).
  The three logs record what the program itself did, oldest first: the command lines
  it passed to \<open>subprocess.run\<close>, the prompts it sent to the endpoint and the names of
  the files it opened for writing.
\<close>

record 'h world =
  files :: "str \<rightharpoonup> str"
  host :: 'h
  invocations :: "str list list"
  prompts :: "str list"
  written :: "str list"
  screen :: "widget list"

text \<open>A statement either returns a value or raises; in both cases the world moves on.\<close>

type_synonym ('a, 'h) io = "'h world \<Rightarrow> (error + 'a) \<times> 'h world"

definition return_io :: "'a \<Rightarrow> ('a, 'h) io" where
  "return_io x w = (Inr x, w)"

definition bind_io :: "('a, 'h) io \<Rightarrow> ('a \<Rightarrow> ('b, 'h) io) \<Rightarrow> ('b, 'h) io" where
  "bind_io m f w = (case m w of (Inl e, w') \<Rightarrow> (Inl e, w') | (Inr x, w') \<Rightarrow> f x w')"

text \<open>
  \<open>try: body except E: handler\<close>, where \<open>handles e\<close> says whether \<open>e\<close> is an instance
  of \<open>E\<close>; any other exception propagates.
\<close>

definition try_except ::
  "('a, 'h) io \<Rightarrow> (error \<Rightarrow> bool) \<Rightarrow> (error \<Rightarrow> ('a, 'h) io) \<Rightarrow> ('a, 'h) io" where
  "try_except body handles handler w =
     (case body w of
        (Inl e, w') \<Rightarrow> if handles e then handler e w' else (Inl e, w')
      | (Inr x, w') \<Rightarrow> (Inr x, w'))"

fun is_FileNotFoundError :: "error \<Rightarrow> bool" where
  "is_FileNotFoundError (FileNotFoundError f) = True"
| "is_FileNotFoundError e = False"

fun is_CalledProcessError :: "error \<Rightarrow> bool" where
  "is_CalledProcessError (CalledProcessError argv rc) = True"
| "is_CalledProcessError e = False"

text \<open>
  \<open>subprocess.run([prog] + args, check=check)\<close>. A missing executable raises
  \<open>FileNotFoundError\<close> and nothing runs; with \<open>check=True\<close> a non-zero return code
  raises \<open>CalledProcessError\<close> after the child has run. The completed process (return
  code, standard output, standard error) is handed to the caller, who reads the output
  only where the source passes \<open>capture_output=True\<close>.
\<close>

definition subprocess_run ::
  "'h platform \<Rightarrow> str \<Rightarrow> str list \<Rightarrow> bool \<Rightarrow> (int \<times> str \<times> str, 'h) io" where
  "subprocess_run P prog args check w =
     (let w0 = w\<lparr>invocations := invocations w @ [prog # args]\<rparr> in
      case run_process P (prog # args) (host w) (files w) of
        (NotFound, h', fs') \<Rightarrow> (Inl (FileNotFoundError prog), w0)
      | (Exited rc out err, h', fs') \<Rightarrow>
          (if check \<and> rc \<noteq> 0 then Inl (CalledProcessError (prog # args) rc)
           else Inr (rc, out, err),
           w0\<lparr>host := h', files := fs'\<rparr>))"

definition write_file :: "str \<Rightarrow> str \<Rightarrow> (unit, 'h) io" where
  "write_file path content w =
     (Inr (), w\<lparr>files := (files w)(path \<mapsto> content), written := written w @ [path]\<rparr>)"

definition read_file :: "str \<Rightarrow> (str, 'h) io" where
  "read_file path w =
     (case files w path of
        None \<Rightarrow> (Inl (FileNotFoundError path), w)
      | Some content \<Rightarrow> (Inr content, w))"

definition st :: "widget \<Rightarrow> (unit, 'h) io" where
  "st x w = (Inr (), w\<lparr>screen := screen w @ [x]\<rparr>)"

section \<open>Tool availability checkers\<close>

definition ensure_pylint_installed :: "'h platform \<Rightarrow> (unit, 'h) io" where
  "ensure_pylint_installed P =
     try_except
       (bind_io (subprocess_run P (lit ''pylint'') [lit ''--version''] True) (\<lambda>_. return_io ()))
       is_FileNotFoundError
       (\<lambda>_. bind_io (st (Write (lit ''Pylint is not installed. Installing it now...''))) (\<lambda>_.
             bind_io (subprocess_run P (sys_executable P)
                        [lit ''-m'', lit ''pip'', lit ''install'', lit ''pylint''] False) (\<lambda>_.
             return_io ())))"

definition ensure_black_installed :: "'h platform \<Rightarrow> (unit, 'h) io" where
  "ensure_black_installed P =
     try_except
       (bind_io (subprocess_run P (lit ''black'') [lit ''--version''] True) (\<lambda>_. return_io ()))
       is_FileNotFoundError
       (\<lambda>_. bind_io (st (Write (lit ''Black is not installed. Installing it now...''))) (\<lambda>_.
             bind_io (subprocess_run P (sys_executable P)
                        [lit ''-m'', lit ''pip'', lit ''install'', lit ''black''] False) (\<lambda>_.
             return_io ())))"

text \<open>The lintr checker catches \<open>CalledProcessError\<close>, not \<open>FileNotFoundError\<close>.\<close>

definition ensure_lintr_installed :: "'h platform \<Rightarrow> (unit, 'h) io" where
  "ensure_lintr_installed P =
     try_except
       (bind_io (subprocess_run P (lit ''Rscript'') [lit ''-e'', lit ''library(lintr)''] True)
          (\<lambda>_. return_io ()))
       is_CalledProcessError
       (\<lambda>_. bind_io (st (Write (lit ''lintr is not installed in R. Installing it now...''))) (\<lambda>_.
             bind_io (subprocess_run P (lit ''Rscript'')
                        [lit ''-e'', lit ''install.packages(\"lintr\")''] False) (\<lambda>_.
             return_io ())))"

section \<open>Analyzer and formatter adapters\<close>

definition analyze_code_pylint :: "'h platform \<Rightarrow> str \<Rightarrow> (str, 'h) io" where
  "analyze_code_pylint P file_path =
     bind_io (ensure_pylint_installed P) (\<lambda>_.
     bind_io (subprocess_run P (lit ''pylint'') [file_path] False) (\<lambda>(rc, out, err).
     return_io out))"

definition format_code_black :: "'h platform \<Rightarrow> str \<Rightarrow> (str, 'h) io" where
  "format_code_black P file_path =
     bind_io (ensure_black_installed P) (\<lambda>_.
     bind_io (subprocess_run P (lit ''black'') [file_path] False) (\<lambda>_.
     bind_io (read_file file_path) (\<lambda>formatted_code.
     return_io formatted_code)))"

definition analyze_code_lintr :: "'h platform \<Rightarrow> str \<Rightarrow> (str, 'h) io" where
  "analyze_code_lintr P file_path =
     bind_io (ensure_lintr_installed P) (\<lambda>_.
     bind_io (subprocess_run P (lit ''Rscript'')
                [lit ''-e'', lit ''lintr::lint(\"'' @ file_path @ lit ''\")''] False)
       (\<lambda>(rc, out, err).
     return_io out))"

section \<open>Model client and prompt builders\<close>

text \<open>
  \<open>call_gemini_llm\<close>: the prompt goes to the endpoint; an \<open>Exception\<close> is shown with
  \<open>st.error\<close> and replaced by the empty string.
\<close>

definition call_gemini_llm :: "'h platform \<Rightarrow> str \<Rightarrow> (str, 'h) io" where
  "call_gemini_llm P prompt w =
     (case generate_content P prompt (host w) of (outcome, h') \<Rightarrow>
        let w1 = w\<lparr>host := h', prompts := prompts w @ [prompt]\<rparr> in
        case outcome of
          Generated text \<Rightarrow> (Inr text, w1)
        | Failed msg \<Rightarrow>
            bind_io (st (ErrorBox (lit ''Error calling Gemini LLM: '' @ msg)))
              (\<lambda>_. return_io []) w1
        | Interrupted \<Rightarrow> (Inl KeyboardInterrupt, w1))"

definition pylint_prompt :: "str \<Rightarrow> str \<Rightarrow> str" where
  "pylint_prompt code lint_report =
     lit ''\<newline>    Given the following Python code and the Pylint report, improve the code to address all issues and achieve a Pylint score greater than 8.\<newline>    Include only the necessary docstrings and avoid redundant explanations.\<newline>\<newline>    Original Code:\<newline>    ''
     @ code
     @ lit ''\<newline>\<newline>    Pylint Report:\<newline>    ''
     @ lint_report
     @ lit ''\<newline>\<newline>    Improved Code:\<newline>    ''"

definition black_prompt :: "str \<Rightarrow> str" where
  "black_prompt code =
     lit ''\<newline>    Given the following Python code, format it according to the Black code style.\<newline>\<newline>    Original Code:\<newline>    ''
     @ code
     @ lit ''\<newline>\<newline>    Improved Code:\<newline>    ''"

text \<open>The lintr template has no placeholder for the report: \<open>lint_report\<close> is not used.\<close>

definition lintr_prompt :: "str \<Rightarrow> str \<Rightarrow> str" where
  "lintr_prompt code lint_report =
     lit ''\<newline>    Given the following R code and the lintr report, improve the code to address all issues according to R's best practices.\<newline>    Include only the necessary comments and avoid redundant explanations.\<newline>\<newline>    Original Code:\<newline>    ''
     @ code
     @ lit ''\<newline>\<newline>  \<newline>\<newline>    Improved Code:\<newline>    ''"

definition summarize_prompt :: "str \<Rightarrow> str \<Rightarrow> str" where
  "summarize_prompt code language =
     lit ''\<newline>    Summarize the following '' @ language
     @ lit '' code. Provide a concise explanation of what the code does.\<newline>\<newline>    Code:\<newline>    ''
     @ code
     @ lit ''\<newline>\<newline>    Summary:\<newline>    ''"

definition python_to_r_prompt :: "str \<Rightarrow> str" where
  "python_to_r_prompt python_code =
     lit ''\<newline>    Translate the following Python code into R code.\<newline>\<newline>    Python Code:\<newline>    ''
     @ python_code
     @ lit ''\<newline>\<newline>    R Code:\<newline>    ''"

definition r_to_python_prompt :: "str \<Rightarrow> str" where
  "r_to_python_prompt r_code =
     lit ''\<newline>    Translate the following R code into Python code.\<newline>\<newline>    R Code:\<newline>    ''
     @ r_code
     @ lit ''\<newline>\<newline>    Python Code:\<newline>    ''"

definition standardize_code_pylint :: "'h platform \<Rightarrow> str \<Rightarrow> str \<Rightarrow> (str, 'h) io" where
  "standardize_code_pylint P code lint_report =
     bind_io (call_gemini_llm P (pylint_prompt code lint_report)) (\<lambda>standardized_code.
     return_io (replace (lit ''```'') (lit '' '')
                  (replace (lit ''```python'') (lit '' '') standardized_code)))"

definition standardize_code_black :: "'h platform \<Rightarrow> str \<Rightarrow> (str, 'h) io" where
  "standardize_code_black P code =
     bind_io (call_gemini_llm P (black_prompt code)) (\<lambda>standardized_code.
     return_io (replace (lit ''```'') (lit '' '')
                  (replace (lit ''```python'') (lit '' '') standardized_code)))"

definition standardize_code_lintr :: "'h platform \<Rightarrow> str \<Rightarrow> str \<Rightarrow> (str, 'h) io" where
  "standardize_code_lintr P code lint_report =
     bind_io (call_gemini_llm P (lintr_prompt code lint_report)) (\<lambda>standardized_code.
     return_io (replace (lit ''```'') (lit '' '')
                  (replace (lit ''```r'') (lit '' '') standardized_code)))"

definition summarize_code :: "'h platform \<Rightarrow> str \<Rightarrow> str \<Rightarrow> (str, 'h) io" where
  "summarize_code P code language = call_gemini_llm P (summarize_prompt code language)"

definition translate_python_to_r :: "'h platform \<Rightarrow> str \<Rightarrow> (str, 'h) io" where
  "translate_python_to_r P python_code = call_gemini_llm P (python_to_r_prompt python_code)"

definition translate_r_to_python :: "'h platform \<Rightarrow> str \<Rightarrow> (str, 'h) io" where
  "translate_r_to_python P r_code = call_gemini_llm P (r_to_python_prompt r_code)"

section \<open>Orchestrator\<close>

text \<open>
  One run of \<open>main\<close> is one pass of the Streamlit script over the current state of the
  input widgets. That state is the input of the model: the three radio choices, the
  content of the text area and whether its button was clicked on the Translate page,
  and the uploaded file (name and content) or \<open>None\<close> on the Standardize page.
\<close>

datatype action = Standardize | Translate
datatype language = Python | R
datatype standardizer = Pylint | Black | Lintr

record ui_input =
  action_choice :: action
  language_choice :: language
  standardizer_choice :: standardizer
  translation_code :: str
  button_clicked :: bool
  uploaded_file :: "(str \<times> str) option"

fun language_label :: "language \<Rightarrow> str" where
  "language_label Python = lit ''Python''"
| "language_label R = lit ''R''"

text \<open>Lines 188 to 194 and 196 to 201: the two Translate pages.\<close>

definition translate_python_page :: "'h platform \<Rightarrow> ui_input \<Rightarrow> (unit, 'h) io" where
  "translate_python_page P ui =
     bind_io (st (TextArea (lit ''Paste Python code here:'') (translation_code ui))) (\<lambda>_.
     bind_io (st (Button (lit ''Translate to R''))) (\<lambda>_.
     if button_clicked ui then
       bind_io (translate_python_to_r P (translation_code ui)) (\<lambda>translated_code.
       bind_io (st (Subheader (lit ''Translated R Code''))) (\<lambda>_.
       st (TextArea (lit ''R Code'') translated_code)))
     else return_io ()))"

definition translate_r_page :: "'h platform \<Rightarrow> ui_input \<Rightarrow> (unit, 'h) io" where
  "translate_r_page P ui =
     bind_io (st (TextArea (lit ''Paste R code here:'') (translation_code ui))) (\<lambda>_.
     bind_io (st (Button (lit ''Translate to Python''))) (\<lambda>_.
     if button_clicked ui then
       bind_io (translate_r_to_python P (translation_code ui)) (\<lambda>translated_code.
       bind_io (st (Subheader (lit ''Translated Python Code''))) (\<lambda>_.
       st (TextArea (lit ''Python Code'') translated_code)))
     else return_io ()))"

text \<open>Lines 227 to 253: language Python, standardizer Pylint.\<close>

definition pylint_branch :: "'h platform \<Rightarrow> str \<Rightarrow> str \<Rightarrow> str \<Rightarrow> (unit, 'h) io" where
  "pylint_branch P file_path original_code standardized_file_path =
     bind_io (analyze_code_pylint P file_path) (\<lambda>lint_report.
     bind_io (st (Subheader (lit ''Pylint Report''))) (\<lambda>_.
     bind_io (st (Text lint_report)) (\<lambda>_.
     bind_io (standardize_code_pylint P original_code lint_report) (\<lambda>standardized_code.
     bind_io (write_file standardized_file_path standardized_code) (\<lambda>_.
     bind_io (st (Subheader (lit ''Standardized Code (Pylint)''))) (\<lambda>_.
     bind_io (st (TextArea (lit ''Standardized Code'') standardized_code)) (\<lambda>_.
     bind_io (analyze_code_pylint P standardized_file_path) (\<lambda>new_lint_report.
     bind_io (st (Subheader (lit ''New Pylint Report''))) (\<lambda>_.
     bind_io (st (Text new_lint_report)) (\<lambda>_.
     bind_io (st (Subheader (lit ''New Pylint Score''))) (\<lambda>_.
     st (Text (extract_pylint_score new_lint_report)))))))))))))"

text \<open>Lines 256 to 266: language Python, standardizer Black.\<close>

definition black_branch :: "'h platform \<Rightarrow> str \<Rightarrow> str \<Rightarrow> (unit, 'h) io" where
  "black_branch P file_path standardized_file_path =
     bind_io (format_code_black P file_path) (\<lambda>standardized_code.
     bind_io (write_file standardized_file_path standardized_code) (\<lambda>_.
     bind_io (st (Subheader (lit ''Standardized Code (Black)''))) (\<lambda>_.
     st (TextArea (lit ''Standardized Code'') standardized_code))))"

text \<open>Lines 270 to 285: language R, standardizer lintr.\<close>

definition lintr_branch :: "'h platform \<Rightarrow> str \<Rightarrow> str \<Rightarrow> str \<Rightarrow> (unit, 'h) io" where
  "lintr_branch P file_path original_code standardized_file_path =
     bind_io (analyze_code_lintr P file_path) (\<lambda>lint_report.
     bind_io (st (Subheader (lit ''lintr Report''))) (\<lambda>_.
     bind_io (st (Text lint_report)) (\<lambda>_.
     bind_io (standardize_code_lintr P original_code lint_report) (\<lambda>standardized_code.
     bind_io (write_file standardized_file_path standardized_code) (\<lambda>_.
     bind_io (st (Subheader (lit ''Standardized Code (lintr)''))) (\<lambda>_.
     st (TextArea (lit ''Standardized Code'') standardized_code)))))))"

text \<open>
  Lines 225 to 285: the \<open>if\<close>/\<open>elif\<close> cascade over language and standardizer. The pairs
  Python with lintr, R with Pylint and R with Black match no branch.
\<close>

definition standardizer_branches ::
  "'h platform \<Rightarrow> language \<Rightarrow> standardizer \<Rightarrow> str \<Rightarrow> str \<Rightarrow> str \<Rightarrow> (unit, 'h) io" where
  "standardizer_branches P lang choice file_path original_code standardized_file_path =
     (case lang of
        Python \<Rightarrow>
          (case choice of
             Pylint \<Rightarrow> pylint_branch P file_path original_code standardized_file_path
           | Black \<Rightarrow> black_branch P file_path standardized_file_path
           | Lintr \<Rightarrow> return_io ())
      | R \<Rightarrow>
          (case choice of
             Lintr \<Rightarrow> lintr_branch P file_path original_code standardized_file_path
           | Pylint \<Rightarrow> return_io ()
           | Black \<Rightarrow> return_io ()))"

text \<open>
  Lines 213 to 292: what the Standardize page does once the uploaded file is saved
  under its own name.
\<close>

definition process_saved_file :: "'h platform \<Rightarrow> ui_input \<Rightarrow> str \<Rightarrow> (unit, 'h) io" where
  "process_saved_file P ui file_path =
     bind_io (read_file file_path) (\<lambda>original_code.
     bind_io (summarize_code P original_code (language_label (language_choice ui))) (\<lambda>summary.
     bind_io (st (Subheader (lit ''Code Summary''))) (\<lambda>_.
     bind_io (st (TextArea (lit ''Summary Output'') summary)) (\<lambda>_.
     bind_io (standardizer_branches P (language_choice ui) (standardizer_choice ui)
                file_path original_code (lit ''standardized_'' @ file_path)) (\<lambda>_.
     bind_io (read_file (lit ''standardized_'' @ file_path)) (\<lambda>data.
     st (DownloadButton (lit ''Download Standardized Code'') data
           (lit ''standardized_'' @ file_path) (lit ''text/plain''))))))))"

text \<open>Lines 204 to 211: the Standardize page up to saving the upload.\<close>

definition standardize_page :: "'h platform \<Rightarrow> ui_input \<Rightarrow> (unit, 'h) io" where
  "standardize_page P ui =
     bind_io (st (Radio (lit ''Choose a standardizer:'')
                    [lit ''Pylint'', lit ''Black'', lit ''lintr''])) (\<lambda>_.
     bind_io (st (FileUploader (lit ''Upload a file'') [lit ''py'', lit ''r''])) (\<lambda>_.
     case uploaded_file ui of
       None \<Rightarrow> return_io ()
     | Some (file_path, buffer) \<Rightarrow>
         bind_io (write_file file_path buffer) (\<lambda>_.
         process_saved_file P ui file_path)))"

definition main :: "'h platform \<Rightarrow> ui_input \<Rightarrow> (unit, 'h) io" where
  "main P ui =
     bind_io (st (Title (lit ''Code Standardizer and Translator''))) (\<lambda>_.
     bind_io (st (Radio (lit ''Choose an action:'') [lit ''Standardize'', lit ''Translate''])) (\<lambda>_.
     bind_io (st (Radio (lit ''Choose a language:'') [lit ''Python'', lit ''R''])) (\<lambda>_.
     case action_choice ui of
       Translate \<Rightarrow>
         (case language_choice ui of
            Python \<Rightarrow> translate_python_page P ui
          | R \<Rightarrow> translate_r_page P ui)
     | Standardize \<Rightarrow> standardize_page P ui)))"

section \<open>Frame conditions\<close>

text \<open>
  \<open>preserves keep allowed m\<close>: from any world, the statement \<open>m\<close> leaves the content of
  the file \<open>keep\<close> as it was and opens for writing only files in \<open>allowed\<close>, whether it
  returns or raises.
\<close>

definition preserves :: "str \<Rightarrow> str set \<Rightarrow> ('a, 'h) io \<Rightarrow> bool" where
  "preserves keep allowed m \<longleftrightarrow>
     (\<forall>w. files (snd (m w)) keep = files w keep
        \<and> (\<exists>later. written (snd (m w)) = written w @ later \<and> set later \<subseteq> allowed))"

section \<open>A concrete machine\<close>

text \<open>
  A small platform on which the theorems below are instantiated. Its host state lists
  what is installed (executables on the path and R packages) and fixes what the
  endpoint does. \<open>pip install\<close> and \<open>install.packages\<close> add to the list, \<open>pylint\<close> and
  \<open>lintr::lint\<close> print a report and exit with a non-zero status, \<open>black\<close> rewrites the
  file (here: strips it and ends it with a newline).
\<close>

record demo_host =
  installed :: "str list"
  endpoint :: llm_outcome

definition demo_run ::
  "str list \<Rightarrow> demo_host \<Rightarrow> (str \<rightharpoonup> str) \<Rightarrow> proc_result \<times> demo_host \<times> (str \<rightharpoonup> str)" where
  "demo_run argv h fs =
     (case argv of
        [] \<Rightarrow> (NotFound, h, fs)
      | prog # args \<Rightarrow>
          if prog \<notin> set (installed h) then (NotFound, h, fs)
          else if prog = lit ''python3'' then
            (case args of
               [a, b, c, tool] \<Rightarrow>
                 if [a, b, c] = [lit ''-m'', lit ''pip'', lit ''install'']
                 then (Exited 0 [] [], h\<lparr>installed := tool # installed h\<rparr>, fs)
                 else (Exited 2 [] [], h, fs)
             | _ \<Rightarrow> (Exited 2 [] [], h, fs))
          else if prog = lit ''pylint'' then
            (if args = [lit ''--version''] then (Exited 0 (lit ''pylint 3.0.0'') [], h, fs)
             else (Exited 16 (lit ''a.py:1:0: C0114\<newline>Your code has been rated at 7.50/10'') [],
                   h, fs))
          else if prog = lit ''black'' then
            (if args = [lit ''--version''] then (Exited 0 (lit ''black, 24.1.0'') [], h, fs)
             else (case args of
               [path] \<Rightarrow>
                 (case fs path of
                    Some c \<Rightarrow> (Exited 0 [] [], h, fs(path \<mapsto> strip c @ lit ''\<newline>''))
                  | None \<Rightarrow> (Exited 123 [] [], h, fs))
             | _ \<Rightarrow> (Exited 0 [] [], h, fs)))
          else if prog = lit ''Rscript'' then
            (if args = [lit ''-e'', lit ''library(lintr)'']
             then (if lit ''lintr'' \<in> set (installed h) then Exited 0 [] []
                   else Exited 1 [] (lit ''there is no package called lintr''), h, fs)
             else if args = [lit ''-e'', lit ''install.packages(\"lintr\")'']
             then (Exited 0 [] [], h\<lparr>installed := lit ''lintr'' # installed h\<rparr>, fs)
             else (Exited 1 (lit ''a.R:1:3: style: Use <-, not =, for assignment.'') [], h, fs))
          else (Exited 0 [] [], h, fs))"

definition demo_platform :: "demo_host platform" where
  "demo_platform =
     \<lparr>run_process = demo_run,
      generate_content = (\<lambda>prompt h. (endpoint h, h)),
      sys_executable = lit ''python3''\<rparr>"

definition demo_world :: "str list \<Rightarrow> llm_outcome \<Rightarrow> (str \<rightharpoonup> str) \<Rightarrow> demo_host world" where
  "demo_world tools answer fs =
     \<lparr>files = fs, host = \<lparr>installed = tools, endpoint = answer\<rparr>,
      invocations = [], prompts = [], written = [], screen = []\<rparr>"

section \<open>Facts about the string operations\<close>

lemma str_in_sublist: "str_in sub s = sublist sub s"
  by (induction s) (auto simp: sublist_Cons_right)

lemma str_in_iff: "str_in sub s \<longleftrightarrow> (\<exists>pre suf. s = pre @ sub @ suf)"
  by (simp add: str_in_sublist sublist_def)

lemma splitlines_Nil_iff: "splitlines s = [] \<longleftrightarrow> s = []"
  by (cases s) (simp_all split: list.splits)

lemma splitlines_no_linebreak:
  "l \<in> set (splitlines s) \<Longrightarrow> c \<in> set l \<Longrightarrow> \<not> is_linebreak c"
proof (induction s arbitrary: l rule: splitlines.induct)
  case 1
  then show ?case by simp
next
  case (2 d ds)
  show ?case
  proof (cases "is_linebreak d")
    case True
    with 2 show ?thesis by (cases "l = []") auto
  next
    case False
    show ?thesis
    proof (cases "splitlines ds")
      case Nil
      with False 2 show ?thesis by auto
    next
      case (Cons l' ls)
      with False 2 show ?thesis by (cases "l = d # l'") auto
    qed
  qed
qed

lemma splitlines_single:
  "s \<noteq> [] \<Longrightarrow> \<forall>c\<in>set s. \<not> is_linebreak c \<Longrightarrow> splitlines s = [s]"
proof (induction s)
  case Nil
  then show ?case by simp
next
  case (Cons c cs)
  show ?case
  proof (cases cs)
    case Nil
    with Cons.prems show ?thesis by simp
  next
    case (Cons d ds)
    with Cons.IH Cons.prems have "splitlines cs = [cs]" by simp
    with Cons.prems show ?thesis by simp
  qed
qed

lemma dropWhile_hd_id: "s \<noteq> [] \<Longrightarrow> \<not> P (hd s) \<Longrightarrow> dropWhile P s = s"
  by (cases s) simp_all

lemma strip_id:
  assumes "s \<noteq> []" "\<not> is_space (hd s)" "\<not> is_space (last s)"
  shows "strip s = s"
proof -
  have "dropWhile is_space s = s"
    using assms by (simp add: dropWhile_hd_id)
  moreover have "dropWhile is_space (rev s) = rev s"
    using assms by (simp add: dropWhile_hd_id hd_rev)
  ultimately show ?thesis by (simp add: strip_def)
qed

lemma first_rated_line_skip:
  "\<forall>l\<in>set before. \<not> str_in (lit ''Your code has been rated at'') l \<Longrightarrow>
   first_rated_line (before @ rest) = first_rated_line rest"
  by (induction before) simp_all

text \<open>
  After \<open>s.replace(old, new)\<close> no occurrence of \<open>old\<close> is left, provided \<open>new\<close> is not
  empty and shares no character with \<open>old\<close>. The first lemma says that a match
  at the front of the output is a match at the front of the input.
\<close>

lemma replace_prefix:
  assumes "old \<noteq> []" "new \<noteq> []"
  shows "hd new \<notin> set p \<Longrightarrow> prefix p (replace old new s) \<Longrightarrow> prefix p s"
proof (induction s arbitrary: p rule: length_induct)
  case (1 s)
  show ?case
  proof (cases s)
    case Nil
    with 1 assms show ?thesis by simp
  next
    case (Cons c cs)
    show ?thesis
    proof (cases "prefix old (c # cs)")
      case True
      with Cons assms have "replace old new s = new @ replace old new (drop (length old) (c # cs))"
        by simp
      with 1(3) assms(2) 1(2) have "p = []"
        by (cases p; cases new) auto
      then show ?thesis by simp
    next
      case False
      with Cons assms have r: "replace old new s = c # replace old new cs" by simp
      show ?thesis
      proof (cases p)
        case Nil
        then show ?thesis by simp
      next
        case (Cons d ds)
        with r 1(3) have "d = c" "prefix ds (replace old new cs)" by auto
        moreover from Cons 1(2) have "hd new \<notin> set ds" by simp
        ultimately have "prefix ds cs" using 1(1) \<open>s = c # cs\<close> by simp
        with \<open>d = c\<close> Cons \<open>s = c # cs\<close> show ?thesis by simp
      qed
    qed
  qed
qed

lemma str_in_append_fresh:
  assumes "old \<noteq> []" "set new \<inter> set old = {}"
  shows "str_in old (new @ r) = str_in old r"
  using assms
proof (induction new)
  case Nil
  then show ?case by simp
next
  case (Cons n ns)
  then have "\<not> prefix old (n # ns @ r)"
    by (cases old) auto
  with Cons show ?case by simp
qed

lemma replace_no_occurrence:
  assumes "old \<noteq> []" "new \<noteq> []" "set new \<inter> set old = {}"
  shows "\<not> str_in old (replace old new s)"
proof (induction s rule: length_induct)
  case (1 s)
  show ?case
  proof (cases s)
    case Nil
    with assms show ?thesis by simp
  next
    case (Cons c cs)
    show ?thesis
    proof (cases "prefix old (c # cs)")
      case True
      with Cons assms have "replace old new s = new @ replace old new (drop (length old) (c # cs))"
        by simp
      moreover have "\<not> str_in old (replace old new (drop (length old) (c # cs)))"
        using 1 Cons assms(1) by simp
      ultimately show ?thesis
        using assms by (simp add: str_in_append_fresh)
    next
      case False
      with Cons assms have r: "replace old new s = c # replace old new cs" by simp
      have "hd new \<notin> set old" using assms by (cases new) auto
      then have "\<not> prefix old (replace old new s)"
        using replace_prefix [OF assms(1,2), of old s] False Cons by auto
      moreover have "\<not> str_in old (replace old new cs)"
        using 1 Cons by simp
      ultimately show ?thesis using r by simp
    qed
  qed
qed

lemma replace_fence_free: "\<not> str_in (lit ''```'') (replace (lit ''```'') (lit '' '') s)"
  by (rule replace_no_occurrence) (simp_all add: lit_def)

section \<open>Score extractor: theorems\<close>

text \<open>
  C1 (as stated): for every report containing a line with the marker phrase, the
  extractor returns exactly the first such line, unmodified. This fails on a matching
  line that starts with a blank: the report below is one line, that line contains the
  marker, and the extractor returns a different string (the line without its leading
  blank).
\<close>

theorem extract_pylint_score_unmodified_counterexample:
  "splitlines (lit '' Your code has been rated at 5.00/10'')
     = [lit '' Your code has been rated at 5.00/10'']
   \<and> str_in (lit ''Your code has been rated at'') (lit '' Your code has been rated at 5.00/10'')
   \<and> extract_pylint_score (lit '' Your code has been rated at 5.00/10'')
     \<noteq> lit '' Your code has been rated at 5.00/10''"
  by (simp add: extract_pylint_score_def lit_def is_linebreak_def is_space_def strip_def)

text \<open>
  C1 (amended): for every report containing a line with the marker phrase, the extractor
  returns the first such line with its leading and trailing whitespace removed; the
  line comes back unmodified when it neither starts nor ends with whitespace.
\<close>

theorem extract_pylint_score_first_match:
  assumes "splitlines lint_report = before @ line # after"
    and "\<forall>l\<in>set before. \<not> str_in (lit ''Your code has been rated at'') l"
    and "str_in (lit ''Your code has been rated at'') line"
  shows "extract_pylint_score lint_report = strip line
    \<and> (\<not> is_space (hd line) \<and> \<not> is_space (last line)
        \<longrightarrow> extract_pylint_score lint_report = line)"
proof -
  have res: "extract_pylint_score lint_report = strip line"
    using assms by (simp add: extract_pylint_score_def first_rated_line_skip)
  have "line \<noteq> []"
    using assms(3) by (auto simp: lit_def)
  then show ?thesis
    using res by (simp add: strip_id)
qed

theorem extract_pylint_score_first_match_witness:
  "extract_pylint_score
     (lit ''************* Module a\<newline>  Your code has been rated at 5.00/10 \<newline>Your code has been rated at 1'')
   = lit ''Your code has been rated at 5.00/10''"
  using extract_pylint_score_first_match
    [of "lit ''************* Module a\<newline>  Your code has been rated at 5.00/10 \<newline>Your code has been rated at 1''"
        "[lit ''************* Module a'']"
        "lit ''  Your code has been rated at 5.00/10 ''"
        "[lit ''Your code has been rated at 1'']"]
  by (simp add: lit_def is_linebreak_def is_space_def strip_def)

text \<open>
  C2: for every report in which no line contains the marker phrase, the extractor
  returns the fixed fallback string "Pylint score not found.".
\<close>

theorem extract_pylint_score_fallback:
  assumes "\<forall>l\<in>set (splitlines lint_report). \<not> str_in (lit ''Your code has been rated at'') l"
  shows "extract_pylint_score lint_report = lit ''Pylint score not found.''"
  using first_rated_line_skip [OF assms, of "[]"]
  by (simp add: extract_pylint_score_def)

theorem extract_pylint_score_fallback_witness:
  "extract_pylint_score (lit ''a.py:1:0: C0114: Missing module docstring\<newline>rated at 3'')
   = lit ''Pylint score not found.''"
  using extract_pylint_score_fallback
    [of "lit ''a.py:1:0: C0114: Missing module docstring\<newline>rated at 3''"]
  by (simp add: lit_def is_linebreak_def)

section \<open>Fence stripping and prompts: theorems\<close>

lemma call_gemini_llm_Generated:
  "generate_content P prompt (host w) = (Generated text, h') \<Longrightarrow>
   call_gemini_llm P prompt w = (Inr text, w\<lparr>host := h', prompts := prompts w @ [prompt]\<rparr>)"
  by (simp add: call_gemini_llm_def)

text \<open>
  C3: for every model response (in particular one wrapped in a language-tagged code
  fence), the result of \<open>standardize_code_pylint\<close> and of \<open>standardize_code_lintr\<close> is the
  response after the two replacements, and it contains no occurrence of the fence
  delimiter \<open>```\<close>.
\<close>

theorem standardize_code_no_fence:
  "(generate_content P (pylint_prompt code lint_report) (host w) = (Generated response, h') \<longrightarrow>
      (\<exists>result. fst (standardize_code_pylint P code lint_report w) = Inr result
         \<and> result = replace (lit ''```'') (lit '' '') (replace (lit ''```python'') (lit '' '') response)
         \<and> \<not> str_in (lit ''```'') result))
   \<and> (generate_content P (lintr_prompt code lint_report) (host w) = (Generated response, h') \<longrightarrow>
      (\<exists>result. fst (standardize_code_lintr P code lint_report w) = Inr result
         \<and> result = replace (lit ''```'') (lit '' '') (replace (lit ''```r'') (lit '' '') response)
         \<and> \<not> str_in (lit ''```'') result))"
  by (simp add: standardize_code_pylint_def standardize_code_lintr_def bind_io_def return_io_def
      call_gemini_llm_Generated replace_fence_free)

theorem standardize_code_no_fence_witness:
  "fst (standardize_code_pylint demo_platform (lit ''x=1'') (lit ''C0114'')
          (demo_world [] (Generated (lit ''```python\<newline>x = 1\<newline>```'')) Map.empty))
     = Inr (lit '' \<newline>x = 1\<newline> '')
   \<and> fst (standardize_code_lintr demo_platform (lit ''x=1'') (lit ''style'')
          (demo_world [] (Generated (lit ''```r\<newline>x <- 1\<newline>```'')) Map.empty))
     = Inr (lit '' \<newline>x <- 1\<newline> '')
   \<and> \<not> str_in (lit ''```'') (lit '' \<newline>x = 1\<newline> '')
   \<and> \<not> str_in (lit ''```'') (lit '' \<newline>x <- 1\<newline> '')"
  using standardize_code_no_fence
    [of demo_platform "lit ''x=1''" "lit ''C0114''"
        "demo_world [] (Generated (lit ''```python\<newline>x = 1\<newline>```'')) Map.empty"
        "lit ''```python\<newline>x = 1\<newline>```''"
        "\<lparr>installed = [], endpoint = Generated (lit ''```python\<newline>x = 1\<newline>```'')\<rparr>"]
    standardize_code_no_fence
    [of demo_platform "lit ''x=1''" "lit ''style''"
        "demo_world [] (Generated (lit ''```r\<newline>x <- 1\<newline>```'')) Map.empty"
        "lit ''```r\<newline>x <- 1\<newline>```''"
        "\<lparr>installed = [], endpoint = Generated (lit ''```r\<newline>x <- 1\<newline>```'')\<rparr>"]
  by (simp add: demo_platform_def demo_world_def lit_def)

lemma pylint_prompt_contains:
  "str_in code (pylint_prompt code lint_report) \<and> str_in lint_report (pylint_prompt code lint_report)"
  unfolding str_in_iff pylint_prompt_def
  by (metis append.assoc)

lemma lintr_prompt_ignores_report: "lintr_prompt code r1 = lintr_prompt code r2"
  by (simp add: lintr_prompt_def)

text \<open>
  C7: the prompt of a standardize call contains both the code and the lint report.
  \<open>standardize_code_pylint\<close> does this; \<open>standardize_code_lintr\<close> takes the report, and
  its template announces "the lintr report", but the template has no placeholder for
  it. On the input below the prompt sent by \<open>standardize_code_lintr\<close> does not contain
  the report, while the one sent by \<open>standardize_code_pylint\<close> does.
\<close>

theorem standardize_code_lintr_drops_report:
  "prompts (snd (standardize_code_lintr demo_platform (lit ''x = 1'')
                   (lit ''a.R:1:3: style: Use <-, not =, for assignment.'')
                   (demo_world [] (Generated (lit ''x <- 1'')) Map.empty)))
     = [lintr_prompt (lit ''x = 1'') (lit ''a.R:1:3: style: Use <-, not =, for assignment.'')]
   \<and> \<not> str_in (lit ''a.R:1:3: style: Use <-, not =, for assignment.'')
         (lintr_prompt (lit ''x = 1'') (lit ''a.R:1:3: style: Use <-, not =, for assignment.''))
   \<and> prompts (snd (standardize_code_pylint demo_platform (lit ''x = 1'')
                   (lit ''a.R:1:3: style: Use <-, not =, for assignment.'')
                   (demo_world [] (Generated (lit ''x <- 1'')) Map.empty)))
     = [pylint_prompt (lit ''x = 1'') (lit ''a.R:1:3: style: Use <-, not =, for assignment.'')]
   \<and> str_in (lit ''a.R:1:3: style: Use <-, not =, for assignment.'')
         (pylint_prompt (lit ''x = 1'') (lit ''a.R:1:3: style: Use <-, not =, for assignment.''))"
  by (simp add: standardize_code_lintr_def standardize_code_pylint_def call_gemini_llm_def
      bind_io_def return_io_def demo_platform_def demo_world_def lintr_prompt_def pylint_prompt_def lit_def)

section \<open>Model client: theorems\<close>



section \<open>Adapters and availability checkers: theorems\<close>

lemma subprocess_run_Exited:
  "run_process P (prog # args) (host w) (files w) = (Exited rc out err, h', fs') \<Longrightarrow>
   subprocess_run P prog args check w =
     (if check \<and> rc \<noteq> 0 then Inl (CalledProcessError (prog # args) rc) else Inr (rc, out, err),
      w\<lparr>invocations := invocations w @ [prog # args], host := h', files := fs'\<rparr>)"
  by (simp add: subprocess_run_def)

lemma subprocess_run_NotFound:
  "fst (run_process P (prog # args) (host w) (files w)) = NotFound \<Longrightarrow>
   subprocess_run P prog args check w =
     (Inl (FileNotFoundError prog), w\<lparr>invocations := invocations w @ [prog # args]\<rparr>)"
  by (cases "run_process P (prog # args) (host w) (files w)") (simp add: subprocess_run_def)

lemma subprocess_run_invocations:
  "invocations (snd (subprocess_run P prog args check w)) = invocations w @ [prog # args]"
  by (cases "run_process P (prog # args) (host w) (files w)")
     (simp add: subprocess_run_def Let_def split: proc_result.splits)

text \<open>
  C5: for every file path and every exit status \<open>rc\<close> of the analysis run, the analyzer
  adapters return the captured standard output of that run as the report; the exit
  status is not looked at. (The availability check has to return and the executable
  has to be found, or there is no exit status to speak of.)
\<close>

theorem analyzer_returns_stdout:
  "(ensure_pylint_installed P w = (Inr (), w1)
      \<and> run_process P [lit ''pylint'', file_path] (host w1) (files w1) = (Exited rc out err, h2, fs2)
    \<longrightarrow> analyze_code_pylint P file_path w =
          (Inr out, w1\<lparr>invocations := invocations w1 @ [[lit ''pylint'', file_path]],
                        host := h2, files := fs2\<rparr>))
   \<and> (ensure_lintr_installed P w = (Inr (), w1)
      \<and> run_process P [lit ''Rscript'', lit ''-e'', lit ''lintr::lint(\"'' @ file_path @ lit ''\")'']
            (host w1) (files w1) = (Exited rc out err, h2, fs2)
    \<longrightarrow> analyze_code_lintr P file_path w =
          (Inr out,
           w1\<lparr>invocations := invocations w1
                   @ [[lit ''Rscript'', lit ''-e'', lit ''lintr::lint(\"'' @ file_path @ lit ''\")'']],
                host := h2, files := fs2\<rparr>))"
  by (simp add: analyze_code_pylint_def analyze_code_lintr_def bind_io_def return_io_def
      subprocess_run_Exited)

theorem analyzer_returns_stdout_witness:
  "fst (analyze_code_pylint demo_platform (lit ''a.py'')
          (demo_world [lit ''pylint''] Interrupted Map.empty))
     = Inr (lit ''a.py:1:0: C0114\<newline>Your code has been rated at 7.50/10'')
   \<and> fst (analyze_code_lintr demo_platform (lit ''a.R'')
          (demo_world [lit ''Rscript'', lit ''lintr''] Interrupted Map.empty))
     = Inr (lit ''a.R:1:3: style: Use <-, not =, for assignment.'')"
  using analyzer_returns_stdout
    [of demo_platform "demo_world [lit ''pylint''] Interrupted Map.empty"
        "(demo_world [lit ''pylint''] Interrupted Map.empty)
           \<lparr>invocations := [[lit ''pylint'', lit ''--version'']]\<rparr>"
        "lit ''a.py'' " 16 "lit ''a.py:1:0: C0114\<newline>Your code has been rated at 7.50/10''" "[]"
        "\<lparr>installed = [lit ''pylint''], endpoint = Interrupted\<rparr>" Map.empty]
    analyzer_returns_stdout
    [of demo_platform "demo_world [lit ''Rscript'', lit ''lintr''] Interrupted Map.empty"
        "(demo_world [lit ''Rscript'', lit ''lintr''] Interrupted Map.empty)
           \<lparr>invocations := [[lit ''Rscript'', lit ''-e'', lit ''library(lintr)'']]\<rparr>"
        "lit ''a.R'' " 1 "lit ''a.R:1:3: style: Use <-, not =, for assignment.''" "[]"
        "\<lparr>installed = [lit ''Rscript'', lit ''lintr''], endpoint = Interrupted\<rparr>" Map.empty]
  by (simp add: demo_platform_def demo_world_def demo_run_def lit_def
      ensure_pylint_installed_def ensure_lintr_installed_def try_except_def bind_io_def
      return_io_def subprocess_run_def)

lemma bind_io_invocations_rest:
  assumes "\<And>x w'. \<exists>rest. invocations (snd (f x w')) = invocations w' @ rest \<and> (rest = [] \<or> rest = [a])"
  shows "\<exists>rest. invocations (snd (bind_io m f w)) = invocations (snd (m w)) @ rest
           \<and> (rest = [] \<or> rest = [a])"
proof (cases "m w")
  case (Pair r w')
  show ?thesis
  proof (cases r)
    case (Inl e)
    with Pair show ?thesis by (simp add: bind_io_def)
  next
    case (Inr x)
    with Pair assms [of x w'] show ?thesis by (simp add: bind_io_def)
  qed
qed

lemma subprocess_run_invocationsD:
  "subprocess_run P prog args check w = (r, w') \<Longrightarrow> invocations w' = invocations w @ [prog # args]"
  using subprocess_run_invocations [of P prog args check w] by simp

lemma ensure_pylint_missing:
  assumes "fst (run_process P [lit ''pylint'', lit ''--version''] (host w) (files w)) = NotFound"
  shows "invocations (snd (ensure_pylint_installed P w)) =
           invocations w @ [[lit ''pylint'', lit ''--version''],
                            [sys_executable P, lit ''-m'', lit ''pip'', lit ''install'', lit ''pylint'']]"
  using assms
  by (auto simp: ensure_pylint_installed_def try_except_def bind_io_def return_io_def st_def
      subprocess_run_NotFound split: prod.splits sum.splits dest!: subprocess_run_invocationsD)

lemma ensure_black_missing:
  assumes "fst (run_process P [lit ''black'', lit ''--version''] (host w) (files w)) = NotFound"
  shows "invocations (snd (ensure_black_installed P w)) =
           invocations w @ [[lit ''black'', lit ''--version''],
                            [sys_executable P, lit ''-m'', lit ''pip'', lit ''install'', lit ''black'']]"
  using assms
  by (auto simp: ensure_black_installed_def try_except_def bind_io_def return_io_def st_def
      subprocess_run_NotFound split: prod.splits sum.splits dest!: subprocess_run_invocationsD)

lemma ensure_lintr_missing:
  assumes "run_process P [lit ''Rscript'', lit ''-e'', lit ''library(lintr)''] (host w) (files w)
             = (Exited rc out err, h', fs')" "rc \<noteq> 0"
  shows "invocations (snd (ensure_lintr_installed P w)) =
           invocations w @ [[lit ''Rscript'', lit ''-e'', lit ''library(lintr)''],
                            [lit ''Rscript'', lit ''-e'', lit ''install.packages(\"lintr\")'']]"
  using assms
  by (auto simp: ensure_lintr_installed_def try_except_def bind_io_def return_io_def st_def
      subprocess_run_Exited split: prod.splits sum.splits dest!: subprocess_run_invocationsD)

lemma ensure_lintr_no_rscript:
  assumes "fst (run_process P [lit ''Rscript'', lit ''-e'', lit ''library(lintr)''] (host w) (files w))
             = NotFound"
  shows "ensure_lintr_installed P w =
           (Inl (FileNotFoundError (lit ''Rscript'')),
            w\<lparr>invocations := invocations w @ [[lit ''Rscript'', lit ''-e'', lit ''library(lintr)'']]\<rparr>)"
  using assms
  by (simp add: ensure_lintr_installed_def try_except_def bind_io_def subprocess_run_NotFound)

lemma analyze_code_pylint_invocations:
  "\<exists>rest. invocations (snd (analyze_code_pylint P file_path w))
            = invocations (snd (ensure_pylint_installed P w)) @ rest
         \<and> (rest = [] \<or> rest = [[lit ''pylint'', file_path]])"
  unfolding analyze_code_pylint_def
  by (rule bind_io_invocations_rest)
     (auto simp: bind_io_def return_io_def split: prod.splits sum.splits
        dest!: subprocess_run_invocationsD)

lemma format_code_black_invocations:
  "\<exists>rest. invocations (snd (format_code_black P file_path w))
            = invocations (snd (ensure_black_installed P w)) @ rest
         \<and> (rest = [] \<or> rest = [[lit ''black'', file_path]])"
  unfolding format_code_black_def
  by (rule bind_io_invocations_rest)
     (auto simp: bind_io_def return_io_def read_file_def
        split: prod.splits sum.splits option.splits dest!: subprocess_run_invocationsD)

lemma analyze_code_lintr_invocations:
  "\<exists>rest. invocations (snd (analyze_code_lintr P file_path w))
            = invocations (snd (ensure_lintr_installed P w)) @ rest
         \<and> (rest = [] \<or> rest = [[lit ''Rscript'', lit ''-e'', lit ''lintr::lint(\"'' @ file_path @ lit ''\")'']])"
  unfolding analyze_code_lintr_def
  by (rule bind_io_invocations_rest)
     (auto simp: bind_io_def return_io_def split: prod.splits sum.splits
        dest!: subprocess_run_invocationsD)

text \<open>
  C6 (as stated): for every availability checker (Pylint, Black, lintr), if the
  version/help command fails because the executable cannot be found, exactly one
  install attempt is triggered before the analysis call proceeds. This fails for lintr:
  on a machine without \<open>Rscript\<close> the probe is not found, \<open>FileNotFoundError\<close> leaves
  \<open>analyze_code_lintr\<close>, and the probe is the only command that was ever invoked.
\<close>

theorem ensure_installed_counterexample:
  "fst (run_process demo_platform [lit ''Rscript'', lit ''-e'', lit ''library(lintr)'']
          (host (demo_world [lit ''python3''] Interrupted Map.empty))
          (files (demo_world [lit ''python3''] Interrupted Map.empty))) = NotFound
   \<and> fst (analyze_code_lintr demo_platform (lit ''a.R'')
            (demo_world [lit ''python3''] Interrupted Map.empty))
       = Inl (FileNotFoundError (lit ''Rscript''))
   \<and> invocations (snd (analyze_code_lintr demo_platform (lit ''a.R'')
            (demo_world [lit ''python3''] Interrupted Map.empty)))
       = [[lit ''Rscript'', lit ''-e'', lit ''library(lintr)'']]"
  by (simp add: analyze_code_lintr_def ensure_lintr_installed_def try_except_def bind_io_def
      subprocess_run_def demo_platform_def demo_world_def demo_run_def lit_def)

text \<open>
  C6 (amended): for the Pylint and the Black checker, if the version command fails
  because the executable cannot be found, exactly one install attempt
  (\<open>sys.executable -m pip install tool\<close>) is triggered, after the probe and before the
  analysis (or format) call; for the lintr checker the one install attempt
  (\<open>install.packages\<close>) is triggered when the probe \<open>library(lintr)\<close> exits with a
  non-zero status. The commands invoked are the probe, the install and then at most the
  analysis call (none when the install command itself cannot be started). When
  \<open>Rscript\<close> itself cannot be found, the lintr checker attempts no install and
  \<open>FileNotFoundError\<close> propagates.
\<close>

theorem ensure_installed_one_attempt:
  "(fst (run_process P [lit ''pylint'', lit ''--version''] (host w) (files w)) = NotFound \<longrightarrow>
      (\<exists>rest. invocations (snd (analyze_code_pylint P file_path w))
                = invocations w
                  @ [[lit ''pylint'', lit ''--version''],
                     [sys_executable P, lit ''-m'', lit ''pip'', lit ''install'', lit ''pylint'']]
                  @ rest
             \<and> (rest = [] \<or> rest = [[lit ''pylint'', file_path]])))
   \<and> (fst (run_process P [lit ''black'', lit ''--version''] (host w) (files w)) = NotFound \<longrightarrow>
      (\<exists>rest. invocations (snd (format_code_black P file_path w))
                = invocations w
                  @ [[lit ''black'', lit ''--version''],
                     [sys_executable P, lit ''-m'', lit ''pip'', lit ''install'', lit ''black'']]
                  @ rest
             \<and> (rest = [] \<or> rest = [[lit ''black'', file_path]])))
   \<and> (fst (run_process P [lit ''Rscript'', lit ''-e'', lit ''library(lintr)''] (host w) (files w))
        = Exited rc out err \<and> rc \<noteq> 0 \<longrightarrow>
      (\<exists>rest. invocations (snd (analyze_code_lintr P file_path w))
                = invocations w
                  @ [[lit ''Rscript'', lit ''-e'', lit ''library(lintr)''],
                     [lit ''Rscript'', lit ''-e'', lit ''install.packages(\"lintr\")'']]
                  @ rest
             \<and> (rest = [] \<or> rest = [[lit ''Rscript'', lit ''-e'',
                                         lit ''lintr::lint(\"'' @ file_path @ lit ''\")'']])))
   \<and> (fst (run_process P [lit ''Rscript'', lit ''-e'', lit ''library(lintr)''] (host w) (files w))
        = NotFound \<longrightarrow>
      analyze_code_lintr P file_path w
        = (Inl (FileNotFoundError (lit ''Rscript'')),
           w\<lparr>invocations := invocations w
                   @ [[lit ''Rscript'', lit ''-e'', lit ''library(lintr)'']]\<rparr>))"
proof (intro conjI impI)
  assume "fst (run_process P [lit ''pylint'', lit ''--version''] (host w) (files w)) = NotFound"
  then show "\<exists>rest. invocations (snd (analyze_code_pylint P file_path w))
                = invocations w
                  @ [[lit ''pylint'', lit ''--version''],
                     [sys_executable P, lit ''-m'', lit ''pip'', lit ''install'', lit ''pylint'']]
                  @ rest
             \<and> (rest = [] \<or> rest = [[lit ''pylint'', file_path]])"
    using analyze_code_pylint_invocations [of P file_path w] by (simp add: ensure_pylint_missing)
next
  assume "fst (run_process P [lit ''black'', lit ''--version''] (host w) (files w)) = NotFound"
  then show "\<exists>rest. invocations (snd (format_code_black P file_path w))
                = invocations w
                  @ [[lit ''black'', lit ''--version''],
                     [sys_executable P, lit ''-m'', lit ''pip'', lit ''install'', lit ''black'']]
                  @ rest
             \<and> (rest = [] \<or> rest = [[lit ''black'', file_path]])"
    using format_code_black_invocations [of P file_path w] by (simp add: ensure_black_missing)
next
  assume a: "fst (run_process P [lit ''Rscript'', lit ''-e'', lit ''library(lintr)''] (host w) (files w))
        = Exited rc out err \<and> rc \<noteq> 0"
  then obtain h' fs' where
    "run_process P [lit ''Rscript'', lit ''-e'', lit ''library(lintr)''] (host w) (files w)
       = (Exited rc out err, h', fs')"
    by (cases "run_process P [lit ''Rscript'', lit ''-e'', lit ''library(lintr)''] (host w) (files w)")
       auto
  with a show "\<exists>rest. invocations (snd (analyze_code_lintr P file_path w))
                = invocations w
                  @ [[lit ''Rscript'', lit ''-e'', lit ''library(lintr)''],
                     [lit ''Rscript'', lit ''-e'', lit ''install.packages(\"lintr\")'']]
                  @ rest
             \<and> (rest = [] \<or> rest = [[lit ''Rscript'', lit ''-e'',
                                         lit ''lintr::lint(\"'' @ file_path @ lit ''\")'']])"
    using analyze_code_lintr_invocations [of P file_path w] by (simp add: ensure_lintr_missing)
next
  assume "fst (run_process P [lit ''Rscript'', lit ''-e'', lit ''library(lintr)''] (host w) (files w))
        = NotFound"
  then show "analyze_code_lintr P file_path w
        = (Inl (FileNotFoundError (lit ''Rscript'')),
           w\<lparr>invocations := invocations w
                   @ [[lit ''Rscript'', lit ''-e'', lit ''library(lintr)'']]\<rparr>)"
    by (simp add: analyze_code_lintr_def bind_io_def ensure_lintr_no_rscript)
qed


theorem ensure_installed_one_attempt_witness:
  "fst (run_process demo_platform [lit ''pylint'', lit ''--version'']
          (host (demo_world [lit ''python3''] Interrupted Map.empty))
          (files (demo_world [lit ''python3''] Interrupted Map.empty))) = NotFound
   \<and> invocations (snd (analyze_code_pylint demo_platform (lit ''a.py'')
                         (demo_world [lit ''python3''] Interrupted Map.empty)))
       = [[lit ''pylint'', lit ''--version''],
          [lit ''python3'', lit ''-m'', lit ''pip'', lit ''install'', lit ''pylint''],
          [lit ''pylint'', lit ''a.py'']]
   \<and> invocations (snd (format_code_black demo_platform (lit ''a.py'')
                         (demo_world [lit ''python3''] Interrupted Map.empty)))
       = [[lit ''black'', lit ''--version''],
          [lit ''python3'', lit ''-m'', lit ''pip'', lit ''install'', lit ''black''],
          [lit ''black'', lit ''a.py'']]
   \<and> invocations (snd (analyze_code_lintr demo_platform (lit ''a.R'')
                         (demo_world [lit ''Rscript''] Interrupted Map.empty)))
       = [[lit ''Rscript'', lit ''-e'', lit ''library(lintr)''],
          [lit ''Rscript'', lit ''-e'', lit ''install.packages(\"lintr\")''],
          [lit ''Rscript'', lit ''-e'', lit ''lintr::lint(\"a.R\")'']]
   \<and> analyze_code_lintr demo_platform (lit ''a.R'') (demo_world [] Interrupted Map.empty)
       = (Inl (FileNotFoundError (lit ''Rscript'')),
          (demo_world [] Interrupted Map.empty)
            \<lparr>invocations := [[lit ''Rscript'', lit ''-e'', lit ''library(lintr)'']]\<rparr>)"
  using ensure_installed_one_attempt
    [of demo_platform "demo_world [lit ''python3''] Interrupted Map.empty" "lit ''a.py''" 0 "[]" "[]"]
    ensure_installed_one_attempt
    [of demo_platform "demo_world [] Interrupted Map.empty" "lit ''a.R''" 0 "[]" "[]"]
    ensure_installed_one_attempt
    [of demo_platform "demo_world [lit ''Rscript''] Interrupted Map.empty" "lit ''a.R''"
        1 "[]" "lit ''there is no package called lintr''"]
  by (simp add: analyze_code_pylint_def format_code_black_def analyze_code_lintr_def
      ensure_pylint_installed_def ensure_black_installed_def ensure_lintr_installed_def
      try_except_def bind_io_def return_io_def st_def read_file_def
      subprocess_run_def demo_platform_def demo_world_def demo_run_def lit_def)



section \<open>Orchestrator: theorems\<close>

lemma preservesI:
  assumes "\<And>w. files (snd (m w)) keep = files w keep
             \<and> (\<exists>later. written (snd (m w)) = written w @ later \<and> set later \<subseteq> allowed)"
  shows "preserves keep allowed m"
  using assms by (simp add: preserves_def)

lemma preservesD:
  assumes "preserves keep allowed m" "m w = (r, w')"
  obtains later where "files w' keep = files w keep" "written w' = written w @ later"
    "set later \<subseteq> allowed"
proof -
  from assms(1) have "files (snd (m w)) keep = files w keep
      \<and> (\<exists>later. written (snd (m w)) = written w @ later \<and> set later \<subseteq> allowed)"
    unfolding preserves_def by (rule spec)
  with assms(2) that show thesis by auto
qed

lemma preserves_return: "preserves keep allowed (return_io x)"
  by (simp add: preserves_def return_io_def)

lemma preserves_st: "preserves keep allowed (st x)"
  by (simp add: preserves_def st_def)

lemma preserves_read_file: "preserves keep allowed (read_file path)"
  by (simp add: preserves_def read_file_def split: option.splits)

lemma preserves_write_file:
  "path \<noteq> keep \<Longrightarrow> path \<in> allowed \<Longrightarrow> preserves keep allowed (write_file path content)"
  by (simp add: preserves_def write_file_def)

lemma preserves_bind:
  assumes "preserves keep allowed m" "\<And>x. preserves keep allowed (f x)"
  shows "preserves keep allowed (bind_io m f)"
proof (rule preservesI)
  fix w
  obtain r w' where mw: "m w = (r, w')" by (cases "m w")
  from assms(1) mw obtain l1 where
    m1: "files w' keep = files w keep" "written w' = written w @ l1" "set l1 \<subseteq> allowed"
    by (rule preservesD)
  show "files (snd (bind_io m f w)) keep = files w keep \<and>
         (\<exists>later. written (snd (bind_io m f w)) = written w @ later \<and> set later \<subseteq> allowed)"
  proof (cases r)
    case (Inl e)
    with mw m1 show ?thesis by (simp add: bind_io_def)
  next
    case (Inr x)
    obtain r2 w2 where fx: "f x w' = (r2, w2)" by (cases "f x w'")
    with assms(2) [of x] obtain l2 where
      "files w2 keep = files w' keep" "written w2 = written w' @ l2" "set l2 \<subseteq> allowed"
      by (rule preservesD)
    with Inr mw m1 fx show ?thesis by (simp add: bind_io_def)
  qed
qed

lemma preserves_try_except:
  assumes "preserves keep allowed body" "\<And>e. preserves keep allowed (handler e)"
  shows "preserves keep allowed (try_except body handles handler)"
proof (rule preservesI)
  fix w
  obtain r w' where mw: "body w = (r, w')" by (cases "body w")
  from assms(1) mw obtain l1 where
    m1: "files w' keep = files w keep" "written w' = written w @ l1" "set l1 \<subseteq> allowed"
    by (rule preservesD)
  show "files (snd (try_except body handles handler w)) keep = files w keep \<and>
         (\<exists>later. written (snd (try_except body handles handler w)) = written w @ later
            \<and> set later \<subseteq> allowed)"
  proof (cases r)
    case (Inr x)
    with mw m1 show ?thesis by (simp add: try_except_def)
  next
    case (Inl e)
    obtain r2 w2 where hx: "handler e w' = (r2, w2)" by (cases "handler e w'")
    with assms(2) [of e] obtain l2 where
      "files w2 keep = files w' keep" "written w2 = written w' @ l2" "set l2 \<subseteq> allowed"
      by (rule preservesD)
    with Inl mw m1 hx show ?thesis by (simp add: try_except_def)
  qed
qed

lemma preserves_subprocess_run:
  fixes P :: "'h platform"
  assumes "\<forall>h fs. snd (snd (run_process P (prog # args) h fs)) keep = fs keep"
  shows "preserves keep allowed (subprocess_run P prog args check)"
proof (rule preservesI)
  fix w :: "'h world"
  obtain r h' fs' where rp: "run_process P (prog # args) (host w) (files w) = (r, h', fs')"
    by (cases "run_process P (prog # args) (host w) (files w)") auto
  with assms [rule_format, of "host w" "files w"] have "fs' keep = files w keep" by simp
  with rp show "files (snd (subprocess_run P prog args check w)) keep = files w keep \<and>
         (\<exists>later. written (snd (subprocess_run P prog args check w)) = written w @ later
            \<and> set later \<subseteq> allowed)"
    by (cases r) (simp_all add: subprocess_run_def)
qed

lemma preserves_call_gemini_llm:
  fixes P :: "'h platform"
  shows "preserves keep allowed (call_gemini_llm P prompt)"
proof (rule preservesI)
  fix w :: "'h world"
  obtain outcome h' where "generate_content P prompt (host w) = (outcome, h')"
    by (cases "generate_content P prompt (host w)")
  then show "files (snd (call_gemini_llm P prompt w)) keep = files w keep \<and>
         (\<exists>later. written (snd (call_gemini_llm P prompt w)) = written w @ later
            \<and> set later \<subseteq> allowed)"
    by (cases outcome) (simp_all add: call_gemini_llm_def bind_io_def st_def return_io_def)
qed

lemma preserves_ensure_pylint_installed:
  assumes "\<forall>prog args h fs. prog \<in> {lit ''pylint'', sys_executable P} \<longrightarrow>
             snd (snd (run_process P (prog # args) h fs)) keep = fs keep"
  shows "preserves keep allowed (ensure_pylint_installed P)"
  unfolding ensure_pylint_installed_def
  by (intro preserves_try_except preserves_bind preserves_return preserves_st
        preserves_subprocess_run) (simp_all add: assms)

lemma preserves_analyze_code_pylint:
  assumes "\<forall>prog args h fs. prog \<in> {lit ''pylint'', sys_executable P} \<longrightarrow>
             snd (snd (run_process P (prog # args) h fs)) keep = fs keep"
  shows "preserves keep allowed (analyze_code_pylint P path)"
  unfolding analyze_code_pylint_def
  by (intro preserves_bind preserves_ensure_pylint_installed preserves_subprocess_run assms)
     (simp_all add: assms preserves_return split: prod.splits)

lemma preserves_standardize_code_pylint:
  "preserves keep allowed (standardize_code_pylint P code lint_report)"
  unfolding standardize_code_pylint_def
  by (intro preserves_bind preserves_call_gemini_llm preserves_return)

lemma preserves_pylint_branch:
  assumes "\<forall>prog args h fs. prog \<in> {lit ''pylint'', sys_executable P} \<longrightarrow>
             snd (snd (run_process P (prog # args) h fs)) file_path = fs file_path"
  shows "preserves file_path {lit ''standardized_'' @ file_path}
           (pylint_branch P file_path original_code (lit ''standardized_'' @ file_path))"
  unfolding pylint_branch_def
  by (intro preserves_bind preserves_analyze_code_pylint preserves_standardize_code_pylint
        preserves_st preserves_write_file assms)
     (simp_all add: lit_def)


lemma main_standardize_upload:
  assumes "action_choice ui = Standardize" "uploaded_file ui = Some (file_path, buffer)"
  shows "main P ui w =
           process_saved_file P ui file_path
             (w\<lparr>screen := screen w @
                    [Title (lit ''Code Standardizer and Translator''),
                     Radio (lit ''Choose an action:'') [lit ''Standardize'', lit ''Translate''],
                     Radio (lit ''Choose a language:'') [lit ''Python'', lit ''R''],
                     Radio (lit ''Choose a standardizer:'')
                       [lit ''Pylint'', lit ''Black'', lit ''lintr''],
                     FileUploader (lit ''Upload a file'') [lit ''py'', lit ''r'']],
                files := (files w)(file_path \<mapsto> buffer),
                written := written w @ [file_path]\<rparr>)"
  using assms
  by (simp add: main_def standardize_page_def bind_io_def st_def write_file_def)

lemma process_saved_file_unhandled:
  fixes P :: "'h platform" and w :: "'h world"
  assumes pair: "(language_choice ui, standardizer_choice ui) \<in> {(Python, Lintr), (R, Pylint), (R, Black)}"
    and saved: "files w file_path = Some buffer"
    and absent: "files w (lit ''standardized_'' @ file_path) = None"
    and llm: "fst (generate_content P (summarize_prompt buffer (language_label (language_choice ui)))
                (host w)) \<noteq> Interrupted"
  shows "fst (process_saved_file P ui file_path w)
           = Inl (FileNotFoundError (lit ''standardized_'' @ file_path))
       \<and> written (snd (process_saved_file P ui file_path w)) = written w
       \<and> files (snd (process_saved_file P ui file_path w)) = files w"
proof -
  obtain outcome h' where
    g: "generate_content P (summarize_prompt buffer (language_label (language_choice ui))) (host w)
          = (outcome, h')"
    by (cases "generate_content P (summarize_prompt buffer (language_label (language_choice ui)))
                 (host w)")
  from pair have br: "standardizer_branches P (language_choice ui) (standardizer_choice ui)
      file_path buffer (lit ''standardized_'' @ file_path) = return_io ()"
    by (auto simp: standardizer_branches_def)
  show ?thesis
  proof (cases outcome)
    case (Generated answer)
    with g saved absent show ?thesis
      unfolding process_saved_file_def
      by (simp add: br bind_io_def read_file_def summarize_code_def call_gemini_llm_def st_def
          return_io_def)
  next
    case (Failed msg)
    with g saved absent show ?thesis
      unfolding process_saved_file_def
      by (simp add: br bind_io_def read_file_def summarize_code_def call_gemini_llm_def st_def
          return_io_def)
  next
    case Interrupted
    with g llm show ?thesis by simp
  qed
qed

text \<open>
  C9: some combination of choices that the page allows matches no branch: language
  Python with standardizer lintr (and likewise R with Pylint, R with Black). With an
  uploaded file and no file of the \<open>standardized_\<close> name left in the working directory,
  the run opens only the uploaded file for writing, and the read of the
  \<open>standardized_\<close> path for the download button raises \<open>FileNotFoundError\<close>.
\<close>

theorem main_unhandled_pair_file_not_found:
  assumes "action_choice ui = Standardize"
    and "(language_choice ui, standardizer_choice ui) \<in> {(Python, Lintr), (R, Pylint), (R, Black)}"
    and "uploaded_file ui = Some (file_path, buffer)"
    and "files w (lit ''standardized_'' @ file_path) = None"
    and "fst (generate_content P (summarize_prompt buffer (language_label (language_choice ui)))
           (host w)) \<noteq> Interrupted"
  shows "fst (main P ui w) = Inl (FileNotFoundError (lit ''standardized_'' @ file_path))
       \<and> written (snd (main P ui w)) = written w @ [file_path]
       \<and> files (snd (main P ui w)) (lit ''standardized_'' @ file_path) = None"
  using process_saved_file_unhandled
    [of ui "w\<lparr>screen := screen w @
                    [Title (lit ''Code Standardizer and Translator''),
                     Radio (lit ''Choose an action:'') [lit ''Standardize'', lit ''Translate''],
                     Radio (lit ''Choose a language:'') [lit ''Python'', lit ''R''],
                     Radio (lit ''Choose a standardizer:'')
                       [lit ''Pylint'', lit ''Black'', lit ''lintr''],
                     FileUploader (lit ''Upload a file'') [lit ''py'', lit ''r'']],
                files := (files w)(file_path \<mapsto> buffer),
                written := written w @ [file_path]\<rparr>" file_path buffer P]
    assms
  by (simp add: main_standardize_upload lit_def)

theorem main_unhandled_pair_file_not_found_witness:
  "fst (main demo_platform
          \<lparr>action_choice = Standardize, language_choice = Python, standardizer_choice = Lintr,
           translation_code = [], button_clicked = False,
           uploaded_file = Some (lit ''a.py'', lit ''x=1'')\<rparr>
          (demo_world [] (Generated (lit ''Sets x.'')) Map.empty))
     = Inl (FileNotFoundError (lit ''standardized_a.py''))
   \<and> written (snd (main demo_platform
          \<lparr>action_choice = Standardize, language_choice = Python, standardizer_choice = Lintr,
           translation_code = [], button_clicked = False,
           uploaded_file = Some (lit ''a.py'', lit ''x=1'')\<rparr>
          (demo_world [] (Generated (lit ''Sets x.'')) Map.empty)))
     = [lit ''a.py'']"
  using main_unhandled_pair_file_not_found
    [of "\<lparr>action_choice = Standardize, language_choice = Python, standardizer_choice = Lintr,
           translation_code = [], button_clicked = False,
           uploaded_file = Some (lit ''a.py'', lit ''x=1'')\<rparr>"
        "lit ''a.py''" "lit ''x=1''"
        "demo_world [] (Generated (lit ''Sets x.'')) Map.empty" demo_platform]
  by (simp add: demo_platform_def demo_world_def lit_def)

lemma preserves_process_saved_file_pylint:
  assumes "language_choice ui = Python" "standardizer_choice ui = Pylint"
    and "\<forall>prog args h fs. prog \<in> {lit ''pylint'', sys_executable P} \<longrightarrow>
             snd (snd (run_process P (prog # args) h fs)) file_path = fs file_path"
  shows "preserves file_path {lit ''standardized_'' @ file_path} (process_saved_file P ui file_path)"
  unfolding process_saved_file_def summarize_code_def
  by (intro preserves_bind preserves_read_file preserves_call_gemini_llm preserves_st)
     (simp add: standardizer_branches_def assms preserves_pylint_branch)

text \<open>
  C10: on the Pylint standardize path, once the uploaded file is saved, the program
  opens for writing only the \<open>standardized_\<close> path, and the uploaded file still has its
  uploaded content when the run ends, however it ends. The child processes are outside
  the program: the hypothesis says that \<open>pylint\<close> and the \<open>pip\<close> install leave that file
  alone.
\<close>

theorem pylint_path_keeps_upload:
  assumes "action_choice ui = Standardize"
    and "language_choice ui = Python"
    and "standardizer_choice ui = Pylint"
    and "uploaded_file ui = Some (file_path, buffer)"
    and "\<forall>prog args h fs. prog \<in> {lit ''pylint'', sys_executable P} \<longrightarrow>
           snd (snd (run_process P (prog # args) h fs)) file_path = fs file_path"
  shows "files (snd (main P ui w)) file_path = Some buffer
       \<and> (\<exists>later. written (snd (main P ui w)) = written w @ file_path # later
             \<and> set later \<subseteq> {lit ''standardized_'' @ file_path})"
proof -
  let ?w = "w\<lparr>screen := screen w @
                    [Title (lit ''Code Standardizer and Translator''),
                     Radio (lit ''Choose an action:'') [lit ''Standardize'', lit ''Translate''],
                     Radio (lit ''Choose a language:'') [lit ''Python'', lit ''R''],
                     Radio (lit ''Choose a standardizer:'')
                       [lit ''Pylint'', lit ''Black'', lit ''lintr''],
                     FileUploader (lit ''Upload a file'') [lit ''py'', lit ''r'']],
                files := (files w)(file_path \<mapsto> buffer),
                written := written w @ [file_path]\<rparr>"
  have m: "main P ui w = process_saved_file P ui file_path ?w"
    using assms(1,4) by (rule main_standardize_upload)
  obtain r w' where p: "process_saved_file P ui file_path ?w = (r, w')"
    by (cases "process_saved_file P ui file_path ?w")
  from preserves_process_saved_file_pylint [OF assms(2,3,5)] p
  obtain later where "files w' file_path = files ?w file_path"
    "written w' = written ?w @ later" "set later \<subseteq> {lit ''standardized_'' @ file_path}"
    by (rule preservesD)
  with m p show ?thesis by simp
qed

theorem pylint_path_keeps_upload_witness:
  "files (snd (main demo_platform
          \<lparr>action_choice = Standardize, language_choice = Python, standardizer_choice = Pylint,
           translation_code = [], button_clicked = False,
           uploaded_file = Some (lit ''a.py'', lit ''x=1'')\<rparr>
          (demo_world [lit ''pylint''] (Generated (lit ''```python\<newline>x = 1\<newline>```'')) Map.empty)))
     (lit ''a.py'') = Some (lit ''x=1'')
   \<and> written (snd (main demo_platform
          \<lparr>action_choice = Standardize, language_choice = Python, standardizer_choice = Pylint,
           translation_code = [], button_clicked = False,
           uploaded_file = Some (lit ''a.py'', lit ''x=1'')\<rparr>
          (demo_world [lit ''pylint''] (Generated (lit ''```python\<newline>x = 1\<newline>```'')) Map.empty)))
     = [lit ''a.py'', lit ''standardized_a.py'']"
proof -
  have frame: "\<forall>prog args h fs. prog \<in> {lit ''pylint'', sys_executable demo_platform} \<longrightarrow>
      snd (snd (run_process demo_platform (prog # args) h fs)) (lit ''a.py'') = fs (lit ''a.py'')"
    by (auto simp: demo_platform_def demo_run_def lit_def split: list.splits)
  have run: "written (snd (main demo_platform
          \<lparr>action_choice = Standardize, language_choice = Python, standardizer_choice = Pylint,
           translation_code = [], button_clicked = False,
           uploaded_file = Some (lit ''a.py'', lit ''x=1'')\<rparr>
          (demo_world [lit ''pylint''] (Generated (lit ''```python\<newline>x = 1\<newline>```'')) Map.empty)))
     = [lit ''a.py'', lit ''standardized_a.py'']"
    by (simp add: main_def standardize_page_def process_saved_file_def standardizer_branches_def
        pylint_branch_def analyze_code_pylint_def ensure_pylint_installed_def
        standardize_code_pylint_def summarize_code_def call_gemini_llm_def
        try_except_def bind_io_def return_io_def st_def read_file_def write_file_def
        subprocess_run_def demo_platform_def demo_world_def demo_run_def lit_def)
  show ?thesis
    using pylint_path_keeps_upload
      [of "\<lparr>action_choice = Standardize, language_choice = Python, standardizer_choice = Pylint,
           translation_code = [], button_clicked = False,
           uploaded_file = Some (lit ''a.py'', lit ''x=1'')\<rparr>"
          "lit ''a.py''" "lit ''x=1''" demo_platform
          "demo_world [lit ''pylint''] (Generated (lit ''```python\<newline>x = 1\<newline>```'')) Map.empty",
       OF _ _ _ _ frame]
      run
    by (simp add: lit_def)
qed

end
